theory Spec2Isabelle
  imports Main "HOL-Library.Sublist"
begin

section \<open>Python values used by the three modules\<close>

text \<open>
  The repository is three Python modules: \<^verbatim>\<open>mockFastAPI.py\<close> (the mock status
  service), \<^verbatim>\<open>agent_workflow.py\<close> (the two tools and the scripted run) and
  \<^verbatim>\<open>streamlit_agent_app.py\<close> (the same two tools behind a chat front end).
  The tools of the front end are those of \<^verbatim>\<open>agent_workflow.py\<close> with other message
  texts; the model follows \<^verbatim>\<open>agent_workflow.py\<close>.
  Python's unbounded \<^verbatim>\<open>int\<close> is \<^typ>\<open>int\<close>, \<^verbatim>\<open>None\<close> is \<^term>\<open>None\<close>, a raised
  exception is the left summand of a sum. A \<^verbatim>\<open>str\<close> is a \<^typ>\<open>string\<close>: the bytes of
  its UTF-8 encoding, a lone surrogate, which a Python string can hold, being written as
  its three bytes (\<^verbatim>\<open>'\ud800'\<close> is \<^verbatim>\<open>ED A0 80\<close>). The tools concatenate strings and
  test them for emptiness, which the bytes do alike.
  The libraries the tools call (\<^verbatim>\<open>requests\<close>, \<^verbatim>\<open>smtplib\<close>, \<^verbatim>\<open>ssl\<close>,
  \<^verbatim>\<open>email.mime\<close>) are parameters: for each call, whether it returns or which exception
  it raises. No timeout
  is configured in the source; a library call that never returns is outside the model.
\<close>

subsection \<open>\<^verbatim>\<open>str(int)\<close>, as the f-strings use it\<close>

definition digit_char :: "nat \<Rightarrow> char" where
  "digit_char d = ''0123456789'' ! d"

function str_nat :: "nat \<Rightarrow> string" where
  "str_nat n = (if n < 10 then [digit_char n] else str_nat (n div 10) @ [digit_char (n mod 10)])"
  by pat_completeness auto
termination
  by (relation "measure id") auto

declare str_nat.simps [simp del]

definition str_int :: "int \<Rightarrow> string" where
  "str_int i = (if i < 0 then CHR ''-'' # str_nat (nat (- i)) else str_nat (nat i))"

subsection \<open>Parsed JSON documents\<close>

text \<open>
  What \<^verbatim>\<open>response.json()\<close> returns and what the service's handler returns. An object
  is the association list of its items in insertion order; \<open>JFloat\<close> carries the number
  token as written, since floating point is not modelled.
\<close>

datatype json =
    JNull
  | JBool bool
  | JInt int
  | JFloat string
  | JStr string
  | JArr "json list"
  | JObj "(string \<times> json) list"

section \<open>The mock status service (\<^verbatim>\<open>mockFastAPI.py\<close>)\<close>

type_synonym status_table = "int \<rightharpoonup> string"

text \<open>The module-level dict \<^verbatim>\<open>mock_user_statuses\<close>, as seeded at import.\<close>

definition mock_user_statuses :: status_table where
  "mock_user_statuses =
     [101 \<mapsto> ''Active'', 102 \<mapsto> ''Inactive'', 103 \<mapsto> ''Pending_Approval'', 104 \<mapsto> ''Suspended'']"

datatype http_exception = HTTPException (status_code: int) (detail: string)

text \<open>
  The handler reads the module-level table; the table is passed in and handed back, so
  that a write to it would show in the second component.
\<close>

definition get_user_app_status ::
  "status_table \<Rightarrow> int \<Rightarrow> (http_exception + json) \<times> status_table" where
  "get_user_app_status tbl user_id =
     (case tbl user_id of
        None \<Rightarrow>
          (Inl (HTTPException 404 (''User with ID '' @ str_int user_id @ '' not found.'')), tbl)
      | Some status \<Rightarrow>
          (Inr (JObj [(''user_id'', JInt user_id),
                      (''app_status'', JStr status),
                      (''message'',
                         JStr (''Status retrieved successfully for user '' @ str_int user_id @ ''.''))]),
           tbl))"

text \<open>
  What FastAPI sends for the handler's outcome: a returned value goes out with status 200
  and the value as body, an \<^verbatim>\<open>HTTPException\<close> with its own status code and the body
  \<^verbatim>\<open>{"detail": detail}\<close>.
\<close>

definition route_response :: "http_exception + json \<Rightarrow> int \<times> json" where
  "route_response r =
     (case r of
        Inr body \<Rightarrow> (200, body)
      | Inl e \<Rightarrow> (status_code e, JObj [(''detail'', JStr (detail e))]))"

text \<open>A process lifetime: the requests served one after another on the same table.\<close>

fun serve :: "status_table \<Rightarrow> int list \<Rightarrow> (int \<times> json) list \<times> status_table" where
  "serve tbl [] = ([], tbl)"
| "serve tbl (user_id # rest) =
     (let (r, tbl') = get_user_app_status tbl user_id;
          (rs, tbl'') = serve tbl' rest
      in (route_response r # rs, tbl''))"

section \<open>Exceptions and the outside world of the tools (\<^verbatim>\<open>agent_workflow.py\<close>)\<close>

text \<open>
  The tools tell exceptions apart by class only, in their \<^verbatim>\<open>except\<close> clauses, and use
  of an exception only its text (\<^verbatim>\<open>{e}\<close> in an f-string). So an exception is its
  class, up to what the handlers distinguish, and \<^verbatim>\<open>str(e)\<close>:
  \<^item> \<open>RequestException\<close>: \<^verbatim>\<open>requests.exceptions.RequestException\<close> or a subclass
    (\<^verbatim>\<open>ConnectionError\<close>, \<^verbatim>\<open>Timeout\<close>, \<^verbatim>\<open>HTTPError\<close>, ...);
  \<^item> \<open>SMTPException\<close>: \<^verbatim>\<open>smtplib.SMTPException\<close> or a subclass;
  \<^item> \<open>OtherException\<close>: any other subclass of \<^verbatim>\<open>Exception\<close> (\<^verbatim>\<open>OSError\<close>,
    \<^verbatim>\<open>ssl.SSLError\<close>, \<^verbatim>\<open>AttributeError\<close>, \<^verbatim>\<open>ValueError\<close>, ...).
  Asynchronous exceptions outside \<^verbatim>\<open>Exception\<close> (\<^verbatim>\<open>KeyboardInterrupt\<close>) are not modelled.
\<close>

datatype exn_class = RequestException | SMTPException | OtherException

datatype exn = Exn (exn_class: exn_class) (exn_str: string)

definition API_BASE_URL :: string where
  "API_BASE_URL = ''http://127.0.0.1:8001''"

definition SENDER_EMAIL :: string where
  "SENDER_EMAIL = ''your-support@example.com''"

definition squote :: string where
  "squote = [CHR 0x27]"

subsection \<open>The \<^verbatim>\<open>requests\<close> library, as far as \<^verbatim>\<open>get_user_status\<close> uses it\<close>

text \<open>
  A response object: its status code, reason phrase and final URL, and what its
  \<^verbatim>\<open>json()\<close> method does (the parsed document, or the exception it raises on a body
  that is not JSON).
\<close>

record http_response =
  resp_status_code :: int
  resp_reason :: string
  resp_url :: string
  resp_json :: "exn + json"

text \<open>\<^verbatim>\<open>requests.get\<close>: for a URL, the exception it raises or the response it returns.\<close>

type_synonym requests_get = "string \<Rightarrow> exn + http_response"

text \<open>
  \<^verbatim>\<open>Response.raise_for_status\<close>: an \<^verbatim>\<open>HTTPError\<close> for a status code from 400 to 599,
  nothing for any other code.
\<close>

definition raise_for_status :: "http_response \<Rightarrow> exn option" where
  "raise_for_status r =
     (if 400 \<le> resp_status_code r \<and> resp_status_code r < 500 then
        Some (Exn RequestException
          (str_int (resp_status_code r) @ '' Client Error: '' @ resp_reason r
             @ '' for url: '' @ resp_url r))
      else if 500 \<le> resp_status_code r \<and> resp_status_code r < 600 then
        Some (Exn RequestException
          (str_int (resp_status_code r) @ '' Server Error: '' @ resp_reason r
             @ '' for url: '' @ resp_url r))
      else None)"

fun py_type_name :: "json \<Rightarrow> string" where
  "py_type_name JNull = ''NoneType''"
| "py_type_name (JBool b) = ''bool''"
| "py_type_name (JInt i) = ''int''"
| "py_type_name (JFloat f) = ''float''"
| "py_type_name (JStr s) = ''str''"
| "py_type_name (JArr xs) = ''list''"
| "py_type_name (JObj kvs) = ''dict''"

text \<open>
  \<^verbatim>\<open>data.get(key, default)\<close>: \<^verbatim>\<open>dict.get\<close> when the document is an object; any other
  parsed document has no attribute \<^verbatim>\<open>get\<close>, and the attribute access raises
  \<^verbatim>\<open>AttributeError\<close>.
\<close>

definition data_get :: "json \<Rightarrow> string \<Rightarrow> json \<Rightarrow> exn + json" where
  "data_get data key dflt =
     (case data of
        JObj kvs \<Rightarrow> Inr (case map_of kvs key of Some v \<Rightarrow> v | None \<Rightarrow> dflt)
      | _ \<Rightarrow>
          Inl (Exn OtherException
            (squote @ py_type_name data @ squote @ '' object has no attribute ''
               @ squote @ ''get'' @ squote)))"

text \<open>
  \<^verbatim>\<open>str(v)\<close> of a parsed value, as an f-string renders it. The rendering of floats,
  lists and dicts (Python's \<^verbatim>\<open>repr\<close>) is the parameter \<open>py_repr\<close>.
\<close>

fun py_str :: "(json \<Rightarrow> string) \<Rightarrow> json \<Rightarrow> string" where
  "py_str py_repr (JStr s) = s"
| "py_str py_repr (JInt i) = str_int i"
| "py_str py_repr JNull = ''None''"
| "py_str py_repr (JBool b) = (if b then ''True'' else ''False'')"
| "py_str py_repr v = py_repr v"

section \<open>Tool 1: \<^verbatim>\<open>get_user_status\<close>\<close>

definition status_endpoint :: "int \<Rightarrow> string" where
  "status_endpoint user_id = API_BASE_URL @ ''/users/'' @ str_int user_id @ ''/status''"

text \<open>The body of the \<^verbatim>\<open>try\<close>: the string it returns, or the exception that leaves it.\<close>

definition get_user_status_try ::
  "(json \<Rightarrow> string) \<Rightarrow> requests_get \<Rightarrow> int \<Rightarrow> exn + string" where
  "get_user_status_try py_repr get user_id =
     (case get (status_endpoint user_id) of
        Inl e \<Rightarrow> Inl e
      | Inr response \<Rightarrow>
          (case raise_for_status response of
             Some e \<Rightarrow> Inl e
           | None \<Rightarrow>
               (case resp_json response of
                  Inl e \<Rightarrow> Inl e
                | Inr data \<Rightarrow>
                    (case data_get data ''app_status'' (JStr ''Status Unknown'') of
                       Inl e \<Rightarrow> Inl e
                     | Inr v \<Rightarrow>
                         Inr (''User '' @ str_int user_id @ '' Status: '' @ py_str py_repr v)))))"

definition status_error_prefix :: string where
  "status_error_prefix = ''ERROR: Failed to connect to API or retrieve status. Details: ''"

text \<open>
  The tool: the returned string, or the exception that reaches the caller; and the log of
  the URLs passed to \<^verbatim>\<open>requests.get\<close> during the call.
\<close>

definition get_user_status ::
  "(json \<Rightarrow> string) \<Rightarrow> requests_get \<Rightarrow> int \<Rightarrow> (exn + string) \<times> string list" where
  "get_user_status py_repr get user_id =
     ((case get_user_status_try py_repr get user_id of
         Inr s \<Rightarrow> Inr s
       | Inl e \<Rightarrow>
           (if exn_class e = RequestException then
              Inr (status_error_prefix @ exn_str e)
            else Inl e)),
      [status_endpoint user_id])"

section \<open>Tool 2: \<^verbatim>\<open>send_user_email\<close>\<close>

subsection \<open>The message and the SMTP library\<close>

text \<open>
  The \<^verbatim>\<open>MIMEMultipart("alternative")\<close> object the tool builds: its subtype, the headers
  the tool sets, in order, and the attached \<^verbatim>\<open>MIMEText\<close> parts (subtype and text).
\<close>

record mime_message =
  mime_subtype :: string
  mime_headers :: "(string \<times> string) list"
  mime_parts :: "(string \<times> string) list"

text \<open>
  The calls the tool makes on \<^verbatim>\<open>smtplib\<close>, each with whether it returned normally:
  \<^verbatim>\<open>smtplib.SMTP(host, port)\<close>, \<^verbatim>\<open>starttls\<close>, \<^verbatim>\<open>login(user, password)\<close>,
  \<^verbatim>\<open>sendmail(from, to, msg)\<close>, and the two steps of the session's \<^verbatim>\<open>__exit__\<close>:
  the \<^verbatim>\<open>QUIT\<close> command and \<^verbatim>\<open>close()\<close>, which sits in a \<^verbatim>\<open>finally\<close> and cannot
  be skipped.
\<close>

datatype smtp_event =
    Connect "string option" nat bool
  | StartTLS bool
  | Login string string bool
  | Sendmail string string string bool
  | Quit bool
  | Close

text \<open>
  What the world outside answers to each call: \<open>None\<close> when the call returns normally,
  the exception when it raises. Each is called at most once per run of the tool, so one
  answer per call describes every behaviour of the server. \<open>srv_quit\<close> is the exception
  that leaves \<^verbatim>\<open>__exit__\<close>: a reply to \<^verbatim>\<open>QUIT\<close> other than 221 raises there, a
  connection already lost does not. \<open>email_MIMEText\<close> is the constructor
  \<^verbatim>\<open>MIMEText(text, subtype)\<close>, which encodes the text and raises
  \<^verbatim>\<open>UnicodeEncodeError\<close> for a text it cannot encode.
\<close>

record smtp_world =
  email_MIMEText :: "string \<Rightarrow> string \<Rightarrow> exn option"
  ssl_create_default_context :: "exn option"
  smtp_SMTP :: "string option \<Rightarrow> nat \<Rightarrow> exn option"
  srv_starttls :: "exn option"
  srv_login :: "string \<Rightarrow> string \<Rightarrow> exn option"
  msg_as_string :: "mime_message \<Rightarrow> exn + string"
  srv_sendmail :: "string \<Rightarrow> string \<Rightarrow> string \<Rightarrow> exn option"
  srv_quit :: "exn option"

subsection \<open>Building the message\<close>

text \<open>
  The five statements between the guard and the \<^verbatim>\<open>try\<close>. The multipart object and
  its three headers are stored as given; \<^verbatim>\<open>MIMEText(body, "plain")\<close> is the one call
  among them that can raise, and \<^verbatim>\<open>attach\<close> follows it only when it returned.
\<close>

definition build_message ::
  "smtp_world \<Rightarrow> string \<Rightarrow> string \<Rightarrow> string \<Rightarrow> exn + mime_message" where
  "build_message w recipient_email subject body =
     (case email_MIMEText w body ''plain'' of
        Some e \<Rightarrow> Inl e
      | None \<Rightarrow>
          Inr \<lparr> mime_subtype = ''alternative'',
                mime_headers =
                  [(''Subject'', subject), (''From'', SENDER_EMAIL), (''To'', recipient_email)],
                mime_parts = [(''plain'', body)] \<rparr>)"

subsection \<open>The \<^verbatim>\<open>with\<close> block\<close>

text \<open>
  The three statements inside \<^verbatim>\<open>with smtplib.SMTP(...) as server\<close>: the exception that
  leaves them, if any, and the calls made. \<^verbatim>\<open>message.as_string()\<close> is evaluated before
  \<^verbatim>\<open>sendmail\<close> is called.
\<close>

definition with_body ::
  "smtp_world \<Rightarrow> string \<Rightarrow> string \<Rightarrow> string \<Rightarrow> mime_message \<Rightarrow> exn option \<times> smtp_event list" where
  "with_body w login password recipient_email message =
     (case srv_starttls w of
        Some e \<Rightarrow> (Some e, [StartTLS False])
      | None \<Rightarrow>
          (case srv_login w login password of
             Some e \<Rightarrow> (Some e, [StartTLS True, Login login password False])
           | None \<Rightarrow>
               (case msg_as_string w message of
                  Inl e \<Rightarrow> (Some e, [StartTLS True, Login login password True])
                | Inr payload \<Rightarrow>
                    (case srv_sendmail w SENDER_EMAIL recipient_email payload of
                       Some e \<Rightarrow>
                         (Some e, [StartTLS True, Login login password True,
                                   Sendmail SENDER_EMAIL recipient_email payload False])
                     | None \<Rightarrow>
                         (None, [StartTLS True, Login login password True,
                                 Sendmail SENDER_EMAIL recipient_email payload True])))))"

text \<open>
  The \<^verbatim>\<open>with\<close> statement: the constructor first; when it raises there is no session and
  nothing to leave. Otherwise the body runs and \<^verbatim>\<open>__exit__\<close> is called however the body
  ended; an exception raised by \<^verbatim>\<open>__exit__\<close> replaces the body's, and \<^verbatim>\<open>__exit__\<close>
  suppresses nothing.
\<close>

definition with_SMTP ::
  "smtp_world \<Rightarrow> string option \<Rightarrow> nat \<Rightarrow> string \<Rightarrow> string \<Rightarrow> string \<Rightarrow> mime_message
     \<Rightarrow> exn option \<times> smtp_event list" where
  "with_SMTP w smtp_server port login password recipient_email message =
     (case smtp_SMTP w smtp_server port of
        Some e \<Rightarrow> (Some e, [Connect smtp_server port False])
      | None \<Rightarrow>
          (let (raised, calls) = with_body w login password recipient_email message
           in ((case srv_quit w of Some e' \<Rightarrow> Some e' | None \<Rightarrow> raised),
               Connect smtp_server port True # calls @ [Quit (srv_quit w = None), Close])))"

text \<open>The body of the \<^verbatim>\<open>try\<close>, up to the \<^verbatim>\<open>return\<close> of the success string.\<close>

definition send_try ::
  "smtp_world \<Rightarrow> string option \<Rightarrow> nat \<Rightarrow> string \<Rightarrow> string \<Rightarrow> string \<Rightarrow> mime_message
     \<Rightarrow> exn option \<times> smtp_event list" where
  "send_try w smtp_server port login password recipient_email message =
     (case ssl_create_default_context w of
        Some e \<Rightarrow> (Some e, [])
      | None \<Rightarrow> with_SMTP w smtp_server port login password recipient_email message)"

subsection \<open>The tool\<close>

type_synonym environ = "string \<rightharpoonup> string"

definition os_getenv :: "environ \<Rightarrow> string \<Rightarrow> string option" where
  "os_getenv env name = env name"

text \<open>\<^verbatim>\<open>not v\<close> for \<^verbatim>\<open>v\<close> a string or \<^verbatim>\<open>None\<close>: true of \<^verbatim>\<open>None\<close> and of the empty string.\<close>

definition py_not :: "string option \<Rightarrow> bool" where
  "py_not v = (case v of None \<Rightarrow> True | Some s \<Rightarrow> s = [])"

definition credentials_error :: string where
  "credentials_error =
     ''ERROR: Mailtrap credentials (MAILTRAP_HOST/LOGIN/PASSWORD) are not set in environment variables.''"

definition success_message :: "string \<Rightarrow> string \<Rightarrow> string" where
  "success_message recipient_email subject =
     ''SUCCESS: Real email sent to '' @ recipient_email @ '' with subject '' @ squote @ subject
       @ squote @ '' via Mailtrap. Check your Mailtrap Sandbox inbox.''"

definition smtp_error_prefix :: string where
  "smtp_error_prefix =
     ''ERROR: SMTP failed to send email. Check Mailtrap credentials, SENDER_EMAIL, and network. Details: ''"

definition general_error_prefix :: string where
  "general_error_prefix = ''ERROR: General error during email sending. Details: ''"

text \<open>
  The tool: the returned string, or the exception that reaches the caller, and the calls
  made on \<^verbatim>\<open>smtplib\<close>, in order. After the guard \<open>login\<close> and \<open>password\<close> are strings.
  The message is built before the \<^verbatim>\<open>try\<close>: an exception raised there is not handled
  and leaves the tool, before any call on \<^verbatim>\<open>smtplib\<close>.
\<close>

definition send_user_email ::
  "environ \<Rightarrow> smtp_world \<Rightarrow> string \<Rightarrow> string \<Rightarrow> string \<Rightarrow> (exn + string) \<times> smtp_event list" where
  "send_user_email env w recipient_email subject body =
     (let smtp_server = os_getenv env ''MAILTRAP_HOST'';
          login = os_getenv env ''MAILTRAP_LOGIN'';
          password = os_getenv env ''MAILTRAP_PASSWORD'';
          port = 587
      in if py_not login \<or> py_not password then (Inr credentials_error, [])
         else
           (case build_message w recipient_email subject body of
              Inl e \<Rightarrow> (Inl e, [])
            | Inr message \<Rightarrow>
                (let (raised, calls) =
                       send_try w smtp_server port (the login) (the password) recipient_email
                         message
                 in ((case raised of
                        None \<Rightarrow> Inr (success_message recipient_email subject)
                      | Some e \<Rightarrow>
                          (if exn_class e = SMTPException then Inr (smtp_error_prefix @ exn_str e)
                           else Inr (general_error_prefix @ exn_str e))),
                     calls))))"

section \<open>Reading a log of SMTP calls\<close>

text \<open>
  The properties of a call log that the specification speaks of: the order of the calls,
  that a call is made only after the previous one succeeded, and whether a session is
  left open at the end.
\<close>

fun call_rank :: "smtp_event \<Rightarrow> nat" where
  "call_rank (Connect h p ok) = 0"
| "call_rank (StartTLS ok) = 1"
| "call_rank (Login u p ok) = 2"
| "call_rank (Sendmail f t m ok) = 3"
| "call_rank (Quit ok) = 4"
| "call_rank Close = 5"

fun call_ok :: "smtp_event \<Rightarrow> bool" where
  "call_ok (Connect h p ok) = ok"
| "call_ok (StartTLS ok) = ok"
| "call_ok (Login u p ok) = ok"
| "call_ok (Sendmail f t m ok) = ok"
| "call_ok (Quit ok) = ok"
| "call_ok Close = True"

text \<open>Only the release of the session: \<^verbatim>\<open>QUIT\<close> and \<^verbatim>\<open>close()\<close>.\<close>

fun only_release :: "smtp_event list \<Rightarrow> bool" where
  "only_release [] = True"
| "only_release (Quit ok # t) = only_release t"
| "only_release (Close # t) = only_release t"
| "only_release (e # t) = False"

text \<open>After a call that raised, nothing follows but the release of the session.\<close>

fun stops_at_failure :: "smtp_event list \<Rightarrow> bool" where
  "stops_at_failure [] = True"
| "stops_at_failure (e # t) = (if call_ok e then stops_at_failure t else only_release t)"

text \<open>
  Replaying a log: a session is open after a constructor call that returned normally and
  until the next \<^verbatim>\<open>close()\<close>.
\<close>

fun session_open :: "bool \<Rightarrow> smtp_event list \<Rightarrow> bool" where
  "session_open opn [] = opn"
| "session_open opn (Connect h p ok # t) = session_open (opn \<or> ok) t"
| "session_open opn (Close # t) = session_open False t"
| "session_open opn (e # t) = session_open opn t"

definition sessions_opened :: "smtp_event list \<Rightarrow> nat" where
  "sessions_opened t = length (filter (\<lambda>e. call_rank e = 0 \<and> call_ok e) t)"

section \<open>Sample inputs\<close>

text \<open>A rendering of floats, lists and dicts for the examples, none of which has one.\<close>

definition sample_py_repr :: "json \<Rightarrow> string" where
  "sample_py_repr v = ''...''"

text \<open>The mock service answering the request for \<open>user_id\<close>, whatever the URL.\<close>

definition mock_service_get :: "int \<Rightarrow> requests_get" where
  "mock_service_get user_id url =
     (let (code, body) = route_response (fst (get_user_app_status mock_user_statuses user_id))
      in Inr \<lparr> resp_status_code = code,
               resp_reason = (if code = 200 then ''OK'' else ''Not Found''),
               resp_url = url,
               resp_json = Inr body \<rparr>)"

text \<open>No server is listening.\<close>

definition refused_get :: requests_get where
  "refused_get url = Inl (Exn RequestException ''Connection refused'')"

text \<open>A server answering 300 Multiple Choices, with no \<^verbatim>\<open>Location\<close> header, and a JSON object.\<close>

definition multiple_choices_get :: requests_get where
  "multiple_choices_get url =
     Inr \<lparr> resp_status_code = 300, resp_reason = ''Multiple Choices'', resp_url = url,
           resp_json = Inr (JObj [(''app_status'', JStr ''Active'')]) \<rparr>"


text \<open>A server answering 200 with the JSON document \<^verbatim>\<open>{}\<close>.\<close>

definition empty_object_get :: requests_get where
  "empty_object_get url =
     Inr \<lparr> resp_status_code = 200, resp_reason = ''OK'', resp_url = url,
           resp_json = Inr (JObj []) \<rparr>"

definition mailtrap_env :: environ where
  "mailtrap_env =
     [''MAILTRAP_HOST'' \<mapsto> ''sandbox.smtp.mailtrap.io'',
      ''MAILTRAP_LOGIN'' \<mapsto> ''user'',
      ''MAILTRAP_PASSWORD'' \<mapsto> ''secret'']"

definition env_without_password :: environ where
  "env_without_password =
     [''MAILTRAP_HOST'' \<mapsto> ''sandbox.smtp.mailtrap.io'', ''MAILTRAP_LOGIN'' \<mapsto> ''user'']"

definition env_empty_login :: environ where
  "env_empty_login =
     [''MAILTRAP_HOST'' \<mapsto> ''sandbox.smtp.mailtrap.io'',
      ''MAILTRAP_LOGIN'' \<mapsto> [],
      ''MAILTRAP_PASSWORD'' \<mapsto> ''secret'']"



text \<open>
  A text holds a surrogate that cannot be encoded: the lead byte \<^verbatim>\<open>ED\<close> followed by a
  byte from \<^verbatim>\<open>A0\<close> to \<^verbatim>\<open>BF\<close>, which is a code point from U+D800 to U+DFFF, other
  than U+DC80 to U+DCFF (second byte \<^verbatim>\<open>B2\<close> or \<^verbatim>\<open>B3\<close>), which the encoder lets
  through.
\<close>

fun unencodable :: "string \<Rightarrow> bool" where
  "unencodable (a # b # t) =
     ((a = CHR 0xED \<and> (160::nat) \<le> of_char b \<and> (of_char b :: nat) \<le> 191
         \<and> (of_char b :: nat) \<noteq> 178 \<and> (of_char b :: nat) \<noteq> 179)
      \<or> unencodable (b # t))"
| "unencodable t = False"

text \<open>
  \<^verbatim>\<open>MIMEText\<close> as the standard library of Python 3.11 has it, with the error text it
  gives for \<^verbatim>\<open>'\ud800'\<close>.
\<close>

definition stdlib_MIMEText :: "string \<Rightarrow> string \<Rightarrow> exn option" where
  "stdlib_MIMEText payload subtype =
     (if unencodable payload then
        Some (Exn OtherException
          (squote @ ''utf-8'' @ squote @ '' codec can'' @ squote @ ''t encode character ''
             @ squote @ [CHR 0x5C] @ ''ud800'' @ squote
             @ '' in position 0: surrogates not allowed''))
      else None)"

text \<open>A server on which every call succeeds; the message is serialised to its parts' text.\<close>

definition willing_world :: smtp_world where
  "willing_world =
     \<lparr> email_MIMEText = stdlib_MIMEText,
       ssl_create_default_context = None,
       smtp_SMTP = (\<lambda>host port. None),
       srv_starttls = None,
       srv_login = (\<lambda>user password. None),
       msg_as_string = (\<lambda>m. Inr (concat (map snd (mime_parts m)))),
       srv_sendmail = (\<lambda>from_addr to_addr msg. None),
       srv_quit = None \<rparr>"

text \<open>A server without the STARTTLS extension.\<close>

definition no_starttls_world :: smtp_world where
  "no_starttls_world =
     willing_world \<lparr> srv_starttls :=
       Some (Exn SMTPException ''STARTTLS extension not supported by server.'') \<rparr>"

text \<open>A server that rejects the credentials.\<close>

definition bad_login_world :: smtp_world where
  "bad_login_world =
     willing_world \<lparr> srv_login :=
       (\<lambda>user password. Some (Exn SMTPException ''535 5.7.0 Invalid credentials'')) \<rparr>"

text \<open>
  No host: the constructor returns without connecting, and the first command finds no
  connection.
\<close>

definition unconnected_world :: smtp_world where
  "unconnected_world =
     willing_world \<lparr> srv_starttls := Some (Exn SMTPException ''please run connect() first'') \<rparr>"

text \<open>The message the tool builds for the sample recipient, subject and body.\<close>

definition sample_message :: mime_message where
  "sample_message =
     \<lparr> mime_subtype = ''alternative'',
       mime_headers = [(''Subject'', ''Status Update''), (''From'', SENDER_EMAIL),
                       (''To'', ''bill@example.com'')],
       mime_parts = [(''plain'', ''Your request has been processed.'')] \<rparr>"

section \<open>The mock status service: lookups\<close>

lemma get_user_app_status_table: "snd (get_user_app_status tbl user_id) = tbl"
  by (simp add: get_user_app_status_def split: option.split)

lemma get_user_app_status_pair:
  "get_user_app_status tbl user_id = (fst (get_user_app_status tbl user_id), tbl)"
  using get_user_app_status_table [of tbl user_id]
  by (cases "get_user_app_status tbl user_id") simp

lemma serve_run:
  "serve tbl requests =
     (map (\<lambda>u. route_response (fst (get_user_app_status tbl u))) requests, tbl)"
proof (induction requests)
  case Nil
  show ?case by simp
next
  case (Cons u rest)
  have "serve tbl (u # rest) =
      (let (r, tbl') = (fst (get_user_app_status tbl u), tbl);
           (rs, tbl'') = serve tbl' rest
       in (route_response r # rs, tbl''))"
    using get_user_app_status_pair [of tbl u] by simp
  with Cons show ?case
    by simp
qed

text \<open>
  C1. For every identifier the table holds, the lookup answers with HTTP 200 and the body
  \<^verbatim>\<open>{user_id, app_status, message}\<close>: the requested identifier, the stored status string
  as it is, and a message string.
\<close>

theorem get_user_app_status_found:
  assumes "tbl user_id = Some status"
  shows "route_response (fst (get_user_app_status tbl user_id)) =
           (200, JObj [(''user_id'', JInt user_id),
                       (''app_status'', JStr status),
                       (''message'',
                          JStr (''Status retrieved successfully for user '' @ str_int user_id @ ''.''))])"
  using assms by (simp add: get_user_app_status_def route_response_def)

theorem get_user_app_status_found_witness:
  "mock_user_statuses 102 = Some ''Inactive'' \<and>
   route_response (fst (get_user_app_status mock_user_statuses 102)) =
     (200, JObj [(''user_id'', JInt 102),
                 (''app_status'', JStr ''Inactive''),
                 (''message'', JStr ''Status retrieved successfully for user 102.'')])"
proof -
  have stored: "mock_user_statuses 102 = Some ''Inactive''"
    by (simp add: mock_user_statuses_def)
  have digits: "str_int 102 = ''102''"
    by (simp add: str_int_def str_nat.simps digit_char_def)
  from get_user_app_status_found [of mock_user_statuses 102 "''Inactive''"] stored digits show ?thesis
    by simp
qed

text \<open>
  C2. For every identifier the table does not hold, the lookup fails with an
  \<^verbatim>\<open>HTTPException\<close> of status 404, sent as HTTP 404 with the body \<^verbatim>\<open>{"detail": ...}\<close>,
  whose detail message contains the identifier in decimal.
\<close>

theorem get_user_app_status_not_found:
  assumes "tbl user_id = None"
  shows "fst (get_user_app_status tbl user_id) =
           Inl (HTTPException 404 (''User with ID '' @ str_int user_id @ '' not found.''))
         \<and> route_response (fst (get_user_app_status tbl user_id)) =
           (404, JObj [(''detail'', JStr (''User with ID '' @ str_int user_id @ '' not found.''))])
         \<and> sublist (str_int user_id) (''User with ID '' @ str_int user_id @ '' not found.'')"
proof -
  have "sublist (str_int user_id) (''User with ID '' @ str_int user_id @ '' not found.'')"
    by (rule sublist_appendI)
  with assms show ?thesis
    by (simp add: get_user_app_status_def route_response_def)
qed

theorem get_user_app_status_not_found_witness:
  "mock_user_statuses (- 7) = None \<and>
   fst (get_user_app_status mock_user_statuses (- 7)) =
     Inl (HTTPException 404 ''User with ID -7 not found.'') \<and>
   route_response (fst (get_user_app_status mock_user_statuses (- 7))) =
     (404, JObj [(''detail'', JStr ''User with ID -7 not found.'')]) \<and>
   sublist ''-7'' ''User with ID -7 not found.''"
proof -
  have absent: "mock_user_statuses (- 7) = None"
    by (simp add: mock_user_statuses_def)
  have digits: "str_int (- 7) = ''-7''"
    by (simp add: str_int_def str_nat.simps digit_char_def)
  from get_user_app_status_not_found [of mock_user_statuses "- 7"] absent digits show ?thesis
    by (simp add: route_response_def)
qed

text \<open>
  C8. The seeded table maps 101 to Active, 102 to Inactive, 103 to Pending\_Approval and
  104 to Suspended, and nothing else. A lookup of 101 answers 200 with
  \<^verbatim>\<open>app_status = "Active"\<close>; a lookup of 999 raises the 404 exception and is answered
  with HTTP 404.
\<close>

theorem seeded_lookups:
  "map mock_user_statuses [101, 102, 103, 104] =
     [Some ''Active'', Some ''Inactive'', Some ''Pending_Approval'', Some ''Suspended'']
   \<and> dom mock_user_statuses = {101, 102, 103, 104}
   \<and> route_response (fst (get_user_app_status mock_user_statuses 101)) =
       (200, JObj [(''user_id'', JInt 101),
                   (''app_status'', JStr ''Active''),
                   (''message'', JStr ''Status retrieved successfully for user 101.'')])
   \<and> fst (get_user_app_status mock_user_statuses 999) =
       Inl (HTTPException 404 ''User with ID 999 not found.'')
   \<and> fst (route_response (fst (get_user_app_status mock_user_statuses 999))) = 404"
proof -
  have seeded: "map mock_user_statuses [101, 102, 103, 104] =
      [Some ''Active'', Some ''Inactive'', Some ''Pending_Approval'', Some ''Suspended'']"
    by (simp add: mock_user_statuses_def)
  have keys: "dom mock_user_statuses = {101, 102, 103, 104}"
    by (auto simp add: mock_user_statuses_def)
  have d101: "str_int 101 = ''101''" and d999: "str_int 999 = ''999''"
    by (simp_all add: str_int_def str_nat.simps digit_char_def)
  have found: "route_response (fst (get_user_app_status mock_user_statuses 101)) =
      (200, JObj [(''user_id'', JInt 101), (''app_status'', JStr ''Active''),
                  (''message'', JStr ''Status retrieved successfully for user 101.'')])"
    by (simp add: get_user_app_status_def route_response_def mock_user_statuses_def d101)
  have missing: "fst (get_user_app_status mock_user_statuses 999) =
      Inl (HTTPException 404 ''User with ID 999 not found.'')"
    by (simp add: get_user_app_status_def mock_user_statuses_def d999)
  from seeded keys found missing show ?thesis
    by (simp add: route_response_def)
qed

text \<open>
  C9. A lookup hands the table back as it received it, so a second lookup of the same
  identifier returns what the first did; and over any sequence of requests the table at
  the end is the table at the start, each answer being the one a lookup on the initial
  table gives.
\<close>

theorem lookup_is_read_only:
  "snd (get_user_app_status tbl user_id) = tbl
   \<and> get_user_app_status (snd (get_user_app_status tbl user_id)) user_id =
       get_user_app_status tbl user_id
   \<and> snd (serve tbl requests) = tbl
   \<and> fst (serve tbl requests) =
       map (\<lambda>u. route_response (fst (get_user_app_status tbl u))) requests"
  by (simp add: get_user_app_status_table serve_run)

section \<open>The status tool\<close>

subsection \<open>The markers of its strings, and evaluated samples\<close>

lemma status_error_marked: "prefix ''ERROR:'' (status_error_prefix @ d)"
  by (simp add: status_error_prefix_def)

lemma get_user_status_try_shape:
  assumes "get_user_status_try py_repr get user_id = Inr s"
  shows "prefix ''User '' s"
  using assms
  by (auto simp add: get_user_status_try_def split: sum.splits option.splits)

lemma user_not_error: "prefix ''User '' s \<Longrightarrow> \<not> prefix ''ERROR:'' s"
  by (cases s) (auto simp add: prefix_def)

lemma user_not_success: "prefix ''User '' s \<Longrightarrow> \<not> prefix ''SUCCESS:'' s"
  by (cases s) (auto simp add: prefix_def)

lemma digits_101: "str_int 101 = ''101''"
  by (simp add: str_int_def str_nat.simps digit_char_def)

lemma digits_102: "str_int 102 = ''102''"
  by (simp add: str_int_def str_nat.simps digit_char_def)

lemma digits_999: "str_int 999 = ''999''"
  by (simp add: str_int_def str_nat.simps digit_char_def)

lemma endpoint_101: "status_endpoint 101 = ''http://127.0.0.1:8001/users/101/status''"
  by (simp add: status_endpoint_def API_BASE_URL_def digits_101)

lemma mock_service_get_101:
  "mock_service_get 101 url =
     Inr \<lparr> resp_status_code = 200, resp_reason = ''OK'', resp_url = url,
           resp_json = Inr (JObj [(''user_id'', JInt 101), (''app_status'', JStr ''Active''),
             (''message'', JStr ''Status retrieved successfully for user 101.'')]) \<rparr>"
  by (simp add: mock_service_get_def route_response_def get_user_app_status_def
      mock_user_statuses_def digits_101)

lemma mock_service_get_102:
  "mock_service_get 102 url =
     Inr \<lparr> resp_status_code = 200, resp_reason = ''OK'', resp_url = url,
           resp_json = Inr (JObj [(''user_id'', JInt 102), (''app_status'', JStr ''Inactive''),
             (''message'', JStr ''Status retrieved successfully for user 102.'')]) \<rparr>"
  by (simp add: mock_service_get_def route_response_def get_user_app_status_def
      mock_user_statuses_def digits_102)

lemma mock_service_get_999:
  "mock_service_get 999 url =
     Inr \<lparr> resp_status_code = 404, resp_reason = ''Not Found'', resp_url = url,
           resp_json = Inr (JObj [(''detail'', JStr ''User with ID 999 not found.'')]) \<rparr>"
  by (simp add: mock_service_get_def route_response_def get_user_app_status_def
      mock_user_statuses_def digits_999)

subsection \<open>One request, caught failures, formatted answers\<close>

lemma get_user_status_log: "snd (get_user_status py_repr get user_id) = [status_endpoint user_id]"
  by (simp add: get_user_status_def)

lemma raise_for_status_error:
  assumes "400 \<le> resp_status_code r" and "resp_status_code r < 600"
  shows "\<exists>e. raise_for_status r = Some e \<and> exn_class e = RequestException
           \<and> prefix (str_int (resp_status_code r)) (exn_str e)"
  using assms by (simp add: raise_for_status_def)

lemma raise_for_status_passes:
  assumes "\<not> (400 \<le> resp_status_code r \<and> resp_status_code r < 600)"
  shows "raise_for_status r = None"
  using assms by (auto simp add: raise_for_status_def)

lemma get_user_status_caught:
  assumes "get_user_status_try py_repr get user_id = Inl e" and "exn_class e = RequestException"
  shows "fst (get_user_status py_repr get user_id) = Inr (status_error_prefix @ exn_str e)"
  using assms by (simp add: get_user_status_def)

lemma get_user_status_returned:
  assumes "get_user_status_try py_repr get user_id = Inr s"
  shows "fst (get_user_status py_repr get user_id) = Inr s"
  using assms by (simp add: get_user_status_def)

lemma get_user_status_marked:
  assumes "fst (get_user_status py_repr get user_id) = Inr s"
  shows "prefix ''ERROR:'' s \<or> prefix ''User '' s"
proof (cases "get_user_status_try py_repr get user_id")
  case (Inl e)
  with assms show ?thesis
    by (auto simp add: get_user_status_def status_error_marked split: if_splits)
next
  case (Inr s')
  with assms get_user_status_try_shape [OF Inr] show ?thesis
    by (simp add: get_user_status_def)
qed

text \<open>
  C5, as amended. Every call passes exactly one URL to \<^verbatim>\<open>requests.get\<close>, the
  endpoint of the identifier. A \<^verbatim>\<open>RequestException\<close> raised by the request (connection
  error, timeout), a status code from 400 to 599, and a \<^verbatim>\<open>RequestException\<close> raised
  while decoding the body each give the string \<^verbatim>\<open>ERROR: Failed to connect to API or
  retrieve status. Details: \<close> followed by the exception's text (for a bad status, a text
  starting with the status code). A response with any other status code whose body is a
  JSON object gives \<^verbatim>\<open>User <id> Status: <value>\<close>, the value being that of the
  \<^verbatim>\<open>app_status\<close> item, or \<^verbatim>\<open>Status Unknown\<close> when the object has none.
\<close>

theorem get_user_status_contract:
  "snd (get_user_status py_repr get user_id) = [status_endpoint user_id]
   \<and> (get (status_endpoint user_id) = Inl e \<and> exn_class e = RequestException \<longrightarrow>
        fst (get_user_status py_repr get user_id) = Inr (status_error_prefix @ exn_str e))
   \<and> (get (status_endpoint user_id) = Inr r \<and> 400 \<le> resp_status_code r \<and> resp_status_code r < 600 \<longrightarrow>
        (\<exists>d. fst (get_user_status py_repr get user_id) = Inr (status_error_prefix @ d)
            \<and> prefix (str_int (resp_status_code r)) d))
   \<and> (get (status_endpoint user_id) = Inr r
        \<and> \<not> (400 \<le> resp_status_code r \<and> resp_status_code r < 600)
        \<and> resp_json r = Inl e \<and> exn_class e = RequestException \<longrightarrow>
        fst (get_user_status py_repr get user_id) = Inr (status_error_prefix @ exn_str e))
   \<and> (get (status_endpoint user_id) = Inr r
        \<and> \<not> (400 \<le> resp_status_code r \<and> resp_status_code r < 600)
        \<and> resp_json r = Inr (JObj kvs) \<longrightarrow>
        fst (get_user_status py_repr get user_id) =
          Inr (''User '' @ str_int user_id @ '' Status: '' @
               py_str py_repr (case map_of kvs ''app_status'' of
                                 Some v \<Rightarrow> v | None \<Rightarrow> JStr ''Status Unknown'')))
   \<and> prefix ''ERROR:'' (status_error_prefix @ d')"
proof -
  have transport: "fst (get_user_status py_repr get user_id) = Inr (status_error_prefix @ exn_str e)"
    if "get (status_endpoint user_id) = Inl e" and "exn_class e = RequestException"
    using that by (intro get_user_status_caught) (simp_all add: get_user_status_try_def)
  have protocol: "\<exists>d. fst (get_user_status py_repr get user_id) = Inr (status_error_prefix @ d)
            \<and> prefix (str_int (resp_status_code r)) d"
    if got: "get (status_endpoint user_id) = Inr r"
      and lo: "400 \<le> resp_status_code r" and hi: "resp_status_code r < 600"
  proof -
    from raise_for_status_error [OF lo hi] obtain h where
      h: "raise_for_status r = Some h" "exn_class h = RequestException"
        "prefix (str_int (resp_status_code r)) (exn_str h)"
      by blast
    from got h(1) have "get_user_status_try py_repr get user_id = Inl h"
      by (simp add: get_user_status_try_def)
    from get_user_status_caught [OF this h(2)] h(3) show ?thesis
      by blast
  qed
  have decoding: "fst (get_user_status py_repr get user_id) = Inr (status_error_prefix @ exn_str e)"
    if got: "get (status_endpoint user_id) = Inr r"
      and ok: "\<not> (400 \<le> resp_status_code r \<and> resp_status_code r < 600)"
      and bad: "resp_json r = Inl e" and cls: "exn_class e = RequestException"
  proof -
    from got raise_for_status_passes [OF ok] bad
    have "get_user_status_try py_repr get user_id = Inl e"
      by (simp add: get_user_status_try_def)
    from get_user_status_caught [OF this cls] show ?thesis .
  qed
  have success: "fst (get_user_status py_repr get user_id) =
          Inr (''User '' @ str_int user_id @ '' Status: '' @
               py_str py_repr (case map_of kvs ''app_status'' of
                                 Some v \<Rightarrow> v | None \<Rightarrow> JStr ''Status Unknown''))"
    if got: "get (status_endpoint user_id) = Inr r"
      and ok: "\<not> (400 \<le> resp_status_code r \<and> resp_status_code r < 600)"
      and doc: "resp_json r = Inr (JObj kvs)"
  proof -
    from got raise_for_status_passes [OF ok] doc
    have "get_user_status_try py_repr get user_id =
        Inr (''User '' @ str_int user_id @ '' Status: '' @
               py_str py_repr (case map_of kvs ''app_status'' of
                                 Some v \<Rightarrow> v | None \<Rightarrow> JStr ''Status Unknown''))"
      by (simp add: get_user_status_try_def data_get_def)
    then show ?thesis
      by (rule get_user_status_returned)
  qed
  from get_user_status_log [of py_repr get user_id] transport protocol decoding success
    status_error_marked [of d']
  show ?thesis
    by blast
qed

theorem get_user_status_contract_witness:
  "snd (get_user_status sample_py_repr (mock_service_get 101) 101) =
     [''http://127.0.0.1:8001/users/101/status'']
   \<and> fst (get_user_status sample_py_repr (mock_service_get 101) 101) =
       Inr ''User 101 Status: Active''
   \<and> fst (get_user_status sample_py_repr empty_object_get 101) =
       Inr ''User 101 Status: Status Unknown''
   \<and> fst (get_user_status sample_py_repr refused_get 101) =
       Inr ''ERROR: Failed to connect to API or retrieve status. Details: Connection refused''
   \<and> (\<exists>d. fst (get_user_status sample_py_repr (mock_service_get 999) 999) =
            Inr (status_error_prefix @ d) \<and> prefix ''404'' d)"
proof -
  have served: "snd (get_user_status sample_py_repr (mock_service_get 101) 101) =
        [''http://127.0.0.1:8001/users/101/status'']
      \<and> fst (get_user_status sample_py_repr (mock_service_get 101) 101) =
        Inr ''User 101 Status: Active''"
    using get_user_status_contract
      [where py_repr = sample_py_repr and get = "mock_service_get 101" and user_id = 101
         and r = "\<lparr> resp_status_code = 200, resp_reason = ''OK'', resp_url = status_endpoint 101,
           resp_json = Inr (JObj [(''user_id'', JInt 101), (''app_status'', JStr ''Active''),
             (''message'', JStr ''Status retrieved successfully for user 101.'')]) \<rparr>"
         and kvs = "[(''user_id'', JInt 101), (''app_status'', JStr ''Active''),
             (''message'', JStr ''Status retrieved successfully for user 101.'')]"]
    by (simp add: mock_service_get_101 endpoint_101 digits_101)
  have defaulted: "fst (get_user_status sample_py_repr empty_object_get 101) =
        Inr ''User 101 Status: Status Unknown''"
    using get_user_status_contract
      [where py_repr = sample_py_repr and get = empty_object_get and user_id = 101
         and r = "\<lparr> resp_status_code = 200, resp_reason = ''OK'', resp_url = status_endpoint 101,
           resp_json = Inr (JObj []) \<rparr>"
         and kvs = "[]"]
    by (simp add: empty_object_get_def digits_101)
  have refused: "fst (get_user_status sample_py_repr refused_get 101) =
        Inr ''ERROR: Failed to connect to API or retrieve status. Details: Connection refused''"
    using get_user_status_contract
      [where py_repr = sample_py_repr and get = refused_get and user_id = 101
         and e = "Exn RequestException ''Connection refused''"]
    by (simp add: refused_get_def status_error_prefix_def)
  have unknown: "\<exists>d. fst (get_user_status sample_py_repr (mock_service_get 999) 999) =
        Inr (status_error_prefix @ d) \<and> prefix ''404'' d"
    using get_user_status_contract
      [where py_repr = sample_py_repr and get = "mock_service_get 999" and user_id = 999
         and r = "\<lparr> resp_status_code = 404, resp_reason = ''Not Found'',
           resp_url = status_endpoint 999,
           resp_json = Inr (JObj [(''detail'', JStr ''User with ID 999 not found.'')]) \<rparr>"]
    by (simp add: mock_service_get_999 str_int_def str_nat.simps digit_char_def)
  from served defaulted refused unknown show ?thesis
    by blast
qed

text \<open>
  C5 as worded does not hold for every status outside 2xx: a 300 answer carrying a JSON
  object is reported like a success, since \<^verbatim>\<open>raise_for_status\<close> raises from 400 on.
\<close>

theorem multiple_choices_not_an_error:
  "multiple_choices_get (status_endpoint 101) =
     Inr \<lparr> resp_status_code = 300, resp_reason = ''Multiple Choices'',
           resp_url = status_endpoint 101,
           resp_json = Inr (JObj [(''app_status'', JStr ''Active'')]) \<rparr>
   \<and> fst (get_user_status sample_py_repr multiple_choices_get 101) =
       Inr ''User 101 Status: Active''
   \<and> \<not> prefix ''ERROR:'' ''User 101 Status: Active''"
  by (simp add: multiple_choices_get_def get_user_status_def get_user_status_try_def
      raise_for_status_def data_get_def digits_101)

section \<open>The email tool\<close>

subsection \<open>The guard, the message and the handlers\<close>

lemma credentials_error_marked: "prefix ''ERROR:'' credentials_error"
  by (simp add: credentials_error_def)

lemma smtp_error_marked: "prefix ''ERROR:'' (smtp_error_prefix @ d)"
  by (simp add: smtp_error_prefix_def)

lemma general_error_marked: "prefix ''ERROR:'' (general_error_prefix @ d)"
  by (simp add: general_error_prefix_def)

lemma success_marked: "prefix ''SUCCESS:'' (success_message recipient_email subject)"
  by (simp add: success_message_def)


lemma send_user_email_guarded:
  assumes "py_not (os_getenv env ''MAILTRAP_LOGIN'') \<or> py_not (os_getenv env ''MAILTRAP_PASSWORD'')"
  shows "send_user_email env w recipient_email subject body = (Inr credentials_error, [])"
  using assms by (simp add: send_user_email_def)

lemma send_user_email_unbuilt:
  assumes "\<not> py_not (os_getenv env ''MAILTRAP_LOGIN'')"
    and "\<not> py_not (os_getenv env ''MAILTRAP_PASSWORD'')"
    and "build_message w recipient_email subject body = Inl e"
  shows "send_user_email env w recipient_email subject body = (Inl e, [])"
  using assms by (simp add: send_user_email_def)

lemma send_user_email_attempt:
  assumes "\<not> py_not (os_getenv env ''MAILTRAP_LOGIN'')"
    and "\<not> py_not (os_getenv env ''MAILTRAP_PASSWORD'')"
    and "build_message w recipient_email subject body = Inr message"
  shows "send_user_email env w recipient_email subject body =
           ((case fst (send_try w (os_getenv env ''MAILTRAP_HOST'') 587
                         (the (os_getenv env ''MAILTRAP_LOGIN''))
                         (the (os_getenv env ''MAILTRAP_PASSWORD''))
                         recipient_email message) of
               None \<Rightarrow> Inr (success_message recipient_email subject)
             | Some e \<Rightarrow>
                 (if exn_class e = SMTPException then Inr (smtp_error_prefix @ exn_str e)
                  else Inr (general_error_prefix @ exn_str e))),
            snd (send_try w (os_getenv env ''MAILTRAP_HOST'') 587
                   (the (os_getenv env ''MAILTRAP_LOGIN''))
                   (the (os_getenv env ''MAILTRAP_PASSWORD''))
                   recipient_email message))"
  using assms by (simp add: send_user_email_def Let_def split: prod.split)

lemma credentials_pass:
  assumes "env ''MAILTRAP_LOGIN'' = Some login" and "login \<noteq> []"
    and "env ''MAILTRAP_PASSWORD'' = Some password" and "password \<noteq> []"
  shows "\<not> py_not (os_getenv env ''MAILTRAP_LOGIN'')"
    and "\<not> py_not (os_getenv env ''MAILTRAP_PASSWORD'')"
    and "the (os_getenv env ''MAILTRAP_LOGIN'') = login"
    and "the (os_getenv env ''MAILTRAP_PASSWORD'') = password"
  using assms by (simp_all add: py_not_def os_getenv_def)

lemma send_user_email_cases:
  obtains
    (guarded) "send_user_email env w recipient_email subject body = (Inr credentials_error, [])"
  | (unbuilt) e where "\<not> py_not (os_getenv env ''MAILTRAP_LOGIN'')"
      and "\<not> py_not (os_getenv env ''MAILTRAP_PASSWORD'')"
      and "build_message w recipient_email subject body = Inl e"
      and "send_user_email env w recipient_email subject body = (Inl e, [])"
  | (attempt) message where "\<not> py_not (os_getenv env ''MAILTRAP_LOGIN'')"
      and "\<not> py_not (os_getenv env ''MAILTRAP_PASSWORD'')"
      and "build_message w recipient_email subject body = Inr message"
proof (cases "py_not (os_getenv env ''MAILTRAP_LOGIN'') \<or> py_not (os_getenv env ''MAILTRAP_PASSWORD'')")
  case True
  then show ?thesis
    by (intro guarded send_user_email_guarded)
next
  case False
  then have pass: "\<not> py_not (os_getenv env ''MAILTRAP_LOGIN'')"
    "\<not> py_not (os_getenv env ''MAILTRAP_PASSWORD'')"
    by simp_all
  show ?thesis
  proof (cases "build_message w recipient_email subject body")
    case (Inl e)
    with pass show ?thesis
      by (intro unbuilt [of e] send_user_email_unbuilt)
  next
    case (Inr message)
    with pass show ?thesis
      by (intro attempt [of message])
  qed
qed

lemma send_user_email_outcomes:
  assumes "fst (send_user_email env w recipient_email subject body) = Inr s"
  shows "s = credentials_error \<or> s = success_message recipient_email subject
         \<or> (\<exists>e. exn_class e = SMTPException \<and> s = smtp_error_prefix @ exn_str e)
         \<or> (\<exists>e. exn_class e \<noteq> SMTPException \<and> s = general_error_prefix @ exn_str e)"
proof (cases rule: send_user_email_cases [of env w recipient_email subject body])
  case guarded
  with assms show ?thesis
    by simp
next
  case (unbuilt e)
  with assms show ?thesis
    by simp
next
  case (attempt message)
  from send_user_email_attempt [OF this] assms show ?thesis
    by (auto split: option.splits if_splits)
qed


lemma send_user_email_marked:
  assumes "fst (send_user_email env w recipient_email subject body) = Inr s"
  shows "(s = success_message recipient_email subject \<and> prefix ''SUCCESS:'' s)
         \<or> prefix ''ERROR:'' s"
  using send_user_email_outcomes [OF assms]
    credentials_error_marked success_marked [of recipient_email subject]
    smtp_error_marked general_error_marked
  by metis

lemma plain_text_encodable: "\<not> unencodable ''Your request has been processed.''"
  by simp


lemma sample_message_built:
  assumes "email_MIMEText w = stdlib_MIMEText"
  shows "build_message w ''bill@example.com'' ''Status Update''
           ''Your request has been processed.'' = Inr sample_message"
  using assms plain_text_encodable
  by (simp add: build_message_def stdlib_MIMEText_def sample_message_def)

lemma sample_worlds_MIMEText:
  "email_MIMEText willing_world = stdlib_MIMEText"
  "email_MIMEText no_starttls_world = stdlib_MIMEText"
  "email_MIMEText bad_login_world = stdlib_MIMEText"
  "email_MIMEText unconnected_world = stdlib_MIMEText"
  by (simp_all add: willing_world_def no_starttls_world_def bad_login_world_def
      unconnected_world_def)

text \<open>
  C3. When \<^verbatim>\<open>MAILTRAP_LOGIN\<close> or \<^verbatim>\<open>MAILTRAP_PASSWORD\<close> is unset or empty, the tool
  returns the credentials error, a string beginning with \<^verbatim>\<open>ERROR:\<close>, and the call log
  is empty: no constructor call, no STARTTLS, no login, no send. The result is the same
  for every recipient, subject, body and server, so nothing of them is used.
\<close>

theorem send_user_email_missing_credentials:
  assumes "env ''MAILTRAP_LOGIN'' = None \<or> env ''MAILTRAP_LOGIN'' = Some []
         \<or> env ''MAILTRAP_PASSWORD'' = None \<or> env ''MAILTRAP_PASSWORD'' = Some []"
  shows "send_user_email env w recipient_email subject body = (Inr credentials_error, [])
         \<and> prefix ''ERROR:'' credentials_error"
proof -
  from assms have "py_not (os_getenv env ''MAILTRAP_LOGIN'') \<or> py_not (os_getenv env ''MAILTRAP_PASSWORD'')"
    by (auto simp add: py_not_def os_getenv_def)
  then show ?thesis
    by (simp add: send_user_email_guarded credentials_error_marked)
qed

theorem send_user_email_missing_credentials_witness:
  "env_without_password ''MAILTRAP_PASSWORD'' = None
   \<and> send_user_email env_without_password willing_world ''bill@example.com'' ''Status Update''
        ''Your request has been processed.'' = (Inr credentials_error, [])
   \<and> env_empty_login ''MAILTRAP_LOGIN'' = Some []
   \<and> send_user_email env_empty_login willing_world ''bill@example.com'' ''Status Update''
        ''Your request has been processed.'' = (Inr credentials_error, [])
   \<and> prefix ''ERROR:'' credentials_error"
proof -
  have unset: "env_without_password ''MAILTRAP_PASSWORD'' = None"
    by (simp add: env_without_password_def)
  have empty: "env_empty_login ''MAILTRAP_LOGIN'' = Some []"
    by (simp add: env_empty_login_def)
  from send_user_email_missing_credentials [of env_without_password willing_world
      "''bill@example.com''" "''Status Update''" "''Your request has been processed.''"]
    send_user_email_missing_credentials [of env_empty_login willing_world
      "''bill@example.com''" "''Status Update''" "''Your request has been processed.''"]
    unset empty
  show ?thesis
    by simp
qed

subsection \<open>The SMTP session\<close>

lemma with_body_order:
  "sorted_wrt (<) (map call_rank (snd (with_body w l p r m)))"
  by (simp add: with_body_def split: option.split sum.split)

lemma send_try_order:
  "sorted_wrt (<) (map call_rank (snd (send_try w h port l p r m)))"
  by (simp add: send_try_def with_SMTP_def with_body_def split: option.split sum.split prod.split)

lemma send_try_stops_at_failure: "stops_at_failure (snd (send_try w h port l p r m))"
  by (simp add: send_try_def with_SMTP_def with_body_def split: option.split sum.split prod.split)

lemma send_try_released: "\<not> session_open False (snd (send_try w h port l p r m))"
  by (simp add: send_try_def with_SMTP_def with_body_def split: option.split sum.split prod.split)

lemma send_try_one_session: "sessions_opened (snd (send_try w h port l p r m)) \<le> 1"
  by (simp add: send_try_def with_SMTP_def with_body_def sessions_opened_def split: option.split sum.split prod.split)

lemma send_try_all_succeed:
  assumes "ssl_create_default_context w = None" and "smtp_SMTP w h port = None"
    and "srv_starttls w = None" and "srv_login w l p = None"
    and "msg_as_string w m = Inr payload"
    and "srv_sendmail w SENDER_EMAIL r payload = None" and "srv_quit w = None"
  shows "send_try w h port l p r m =
           (None, [Connect h port True, StartTLS True, Login l p True,
                   Sendmail SENDER_EMAIL r payload True, Quit True, Close])"
  using assms by (simp add: send_try_def with_SMTP_def with_body_def)

lemma send_try_session_bracket:
  assumes "ssl_create_default_context w = None" and "smtp_SMTP w h port = None"
  shows "\<exists>mid. snd (send_try w h port l p r m) =
           Connect h port True # mid @ [Quit (srv_quit w = None), Close]"
  using assms by (simp add: send_try_def with_SMTP_def split: prod.split)


lemma send_user_email_log:
  "sorted_wrt (<) (map call_rank (snd (send_user_email env w recipient_email subject body)))
   \<and> stops_at_failure (snd (send_user_email env w recipient_email subject body))
   \<and> sessions_opened (snd (send_user_email env w recipient_email subject body)) \<le> 1
   \<and> \<not> session_open False (snd (send_user_email env w recipient_email subject body))"
proof (cases rule: send_user_email_cases [of env w recipient_email subject body])
  case guarded
  then show ?thesis
    by (simp add: sessions_opened_def)
next
  case (unbuilt e)
  then show ?thesis
    by (simp add: sessions_opened_def)
next
  case (attempt message)
  show ?thesis
    unfolding send_user_email_attempt [OF attempt] snd_conv
    by (intro conjI send_try_order send_try_stops_at_failure send_try_one_session
        send_try_released)
qed

text \<open>
  C7, as amended. For every call that passes the credential check: the calls made are in
  the order constructor, STARTTLS, login, send, QUIT, close, each at most once; a call is
  made only after the previous one returned normally, except QUIT and close; at most one
  session is opened; no session is open when the tool returns, whatever raised. When the
  message has been built and the constructor has returned, the log starts with the
  constructor and ends with QUIT and close; and when the message has been built and
  every call succeeds, the log is exactly constructor, STARTTLS, one login, one send of
  the single message, QUIT, close, and the success string is returned.
\<close>

theorem send_user_email_session_protocol:
  assumes "env ''MAILTRAP_LOGIN'' = Some login" and "login \<noteq> []"
    and "env ''MAILTRAP_PASSWORD'' = Some password" and "password \<noteq> []"
  shows "sorted_wrt (<) (map call_rank (snd (send_user_email env w recipient_email subject body)))
       \<and> stops_at_failure (snd (send_user_email env w recipient_email subject body))
       \<and> sessions_opened (snd (send_user_email env w recipient_email subject body)) \<le> 1
       \<and> \<not> session_open False (snd (send_user_email env w recipient_email subject body))
       \<and> (build_message w recipient_email subject body = Inr message
            \<and> ssl_create_default_context w = None
            \<and> smtp_SMTP w (env ''MAILTRAP_HOST'') 587 = None \<longrightarrow>
            (\<exists>mid. snd (send_user_email env w recipient_email subject body) =
               Connect (env ''MAILTRAP_HOST'') 587 True # mid @ [Quit (srv_quit w = None), Close]))
       \<and> (build_message w recipient_email subject body = Inr message
            \<and> ssl_create_default_context w = None
            \<and> smtp_SMTP w (env ''MAILTRAP_HOST'') 587 = None
            \<and> srv_starttls w = None \<and> srv_login w login password = None
            \<and> msg_as_string w message = Inr payload
            \<and> srv_sendmail w SENDER_EMAIL recipient_email payload = None \<and> srv_quit w = None \<longrightarrow>
            send_user_email env w recipient_email subject body =
              (Inr (success_message recipient_email subject),
               [Connect (env ''MAILTRAP_HOST'') 587 True, StartTLS True, Login login password True,
                Sendmail SENDER_EMAIL recipient_email payload True, Quit True, Close]))"
proof -
  note pass = credentials_pass [OF assms]
  let ?run = "send_try w (os_getenv env ''MAILTRAP_HOST'') 587 login password recipient_email
                message"
  have host: "os_getenv env ''MAILTRAP_HOST'' = env ''MAILTRAP_HOST''"
    by (simp add: os_getenv_def)
  have log: "snd (send_user_email env w recipient_email subject body) = snd ?run"
    if "build_message w recipient_email subject body = Inr message"
    using send_user_email_attempt [OF pass(1) pass(2) that] pass(3) pass(4) by simp
  have bracket: "\<exists>mid. snd (send_user_email env w recipient_email subject body) =
      Connect (env ''MAILTRAP_HOST'') 587 True # mid @ [Quit (srv_quit w = None), Close]"
    if built: "build_message w recipient_email subject body = Inr message"
      and "ssl_create_default_context w = None"
      and "smtp_SMTP w (env ''MAILTRAP_HOST'') 587 = None"
    using send_try_session_bracket [of w "os_getenv env ''MAILTRAP_HOST''" 587] that
    by (simp add: host log [OF built])
  have happy: "send_user_email env w recipient_email subject body =
      (Inr (success_message recipient_email subject),
       [Connect (env ''MAILTRAP_HOST'') 587 True, StartTLS True, Login login password True,
        Sendmail SENDER_EMAIL recipient_email payload True, Quit True, Close])"
    if built: "build_message w recipient_email subject body = Inr message"
      and "ssl_create_default_context w = None"
      and "smtp_SMTP w (env ''MAILTRAP_HOST'') 587 = None"
      and "srv_starttls w = None" and "srv_login w login password = None"
      and "msg_as_string w message = Inr payload"
      and "srv_sendmail w SENDER_EMAIL recipient_email payload = None" and "srv_quit w = None"
  proof -
    from that have "?run =
        (None, [Connect (os_getenv env ''MAILTRAP_HOST'') 587 True, StartTLS True,
                Login login password True, Sendmail SENDER_EMAIL recipient_email payload True,
                Quit True, Close])"
      by (intro send_try_all_succeed) (simp_all add: host)
    then show ?thesis
      using send_user_email_attempt [OF pass(1) pass(2) built] pass(3) pass(4)
      by (simp add: host)
  qed
  from send_user_email_log [of env w recipient_email subject body] bracket happy show ?thesis
    by blast
qed

theorem send_user_email_session_protocol_witness:
  "mailtrap_env ''MAILTRAP_LOGIN'' = Some ''user''
   \<and> mailtrap_env ''MAILTRAP_PASSWORD'' = Some ''secret''
   \<and> build_message willing_world ''bill@example.com'' ''Status Update''
        ''Your request has been processed.'' = Inr sample_message
   \<and> send_user_email mailtrap_env willing_world ''bill@example.com'' ''Status Update''
        ''Your request has been processed.'' =
       (Inr (success_message ''bill@example.com'' ''Status Update''),
        [Connect (Some ''sandbox.smtp.mailtrap.io'') 587 True, StartTLS True,
         Login ''user'' ''secret'' True,
         Sendmail ''your-support@example.com'' ''bill@example.com''
           ''Your request has been processed.'' True,
         Quit True, Close])
   \<and> \<not> session_open False
         (snd (send_user_email mailtrap_env willing_world ''bill@example.com'' ''Status Update''
                ''Your request has been processed.''))"
proof -
  have user: "mailtrap_env ''MAILTRAP_LOGIN'' = Some ''user''"
    and secret: "mailtrap_env ''MAILTRAP_PASSWORD'' = Some ''secret''"
    and host: "mailtrap_env ''MAILTRAP_HOST'' = Some ''sandbox.smtp.mailtrap.io''"
    by (simp_all add: mailtrap_env_def)
  have built: "build_message willing_world ''bill@example.com'' ''Status Update''
        ''Your request has been processed.'' = Inr sample_message"
    by (rule sample_message_built) (rule sample_worlds_MIMEText)
  have willing: "ssl_create_default_context willing_world = None"
    "smtp_SMTP willing_world (mailtrap_env ''MAILTRAP_HOST'') 587 = None"
    "srv_starttls willing_world = None"
    "srv_login willing_world ''user'' ''secret'' = None"
    "msg_as_string willing_world sample_message = Inr ''Your request has been processed.''"
    "srv_sendmail willing_world SENDER_EMAIL ''bill@example.com''
       ''Your request has been processed.'' = None"
    "srv_quit willing_world = None"
    by (simp_all add: willing_world_def sample_message_def)
  have sender: "SENDER_EMAIL = ''your-support@example.com''"
    by (simp add: SENDER_EMAIL_def)
  from send_user_email_session_protocol
    [where env = mailtrap_env and w = willing_world and login = "''user''"
       and password = "''secret''" and recipient_email = "''bill@example.com''"
       and subject = "''Status Update''" and body = "''Your request has been processed.''"
       and message = sample_message
       and payload = "''Your request has been processed.''", OF user _ secret]
    built willing
  have "\<not> session_open False
          (snd (send_user_email mailtrap_env willing_world ''bill@example.com'' ''Status Update''
                 ''Your request has been processed.''))
      \<and> send_user_email mailtrap_env willing_world ''bill@example.com'' ''Status Update''
          ''Your request has been processed.'' =
        (Inr (success_message ''bill@example.com'' ''Status Update''),
         [Connect (mailtrap_env ''MAILTRAP_HOST'') 587 True, StartTLS True,
          Login ''user'' ''secret'' True,
          Sendmail SENDER_EMAIL ''bill@example.com'' ''Your request has been processed.'' True,
          Quit True, Close])"
    by blast
  with user secret built show ?thesis
    by (simp add: host sender)
qed

text \<open>
  C7 as worded does not hold: on a server without STARTTLS a call that passes the credential check
  makes no login and no send. The session is still released.
\<close>

theorem starttls_refused_no_login:
  "\<not> py_not (os_getenv mailtrap_env ''MAILTRAP_LOGIN'')
   \<and> \<not> py_not (os_getenv mailtrap_env ''MAILTRAP_PASSWORD'')
   \<and> snd (send_user_email mailtrap_env no_starttls_world ''bill@example.com'' ''Status Update''
            ''Your request has been processed.'') =
       [Connect (Some ''sandbox.smtp.mailtrap.io'') 587 True, StartTLS False, Quit True, Close]"
proof -
  have built: "build_message no_starttls_world ''bill@example.com'' ''Status Update''
        ''Your request has been processed.'' = Inr sample_message"
    by (rule sample_message_built) (rule sample_worlds_MIMEText)
  then show ?thesis
    by (simp add: send_user_email_def send_try_def with_SMTP_def with_body_def mailtrap_env_def
        no_starttls_world_def willing_world_def os_getenv_def py_not_def)
qed

subsection \<open>A missing host\<close>




section \<open>Both tools: markers and exceptions\<close>

text \<open>
  C4, as amended. Every string \<^verbatim>\<open>send_user_email\<close> returns begins with
  \<^verbatim>\<open>SUCCESS:\<close>, when it is the success message, or with \<^verbatim>\<open>ERROR:\<close>. Every string
  \<^verbatim>\<open>get_user_status\<close> returns begins with \<^verbatim>\<open>ERROR:\<close> or with \<^verbatim>\<open>User \<close>: the
  string returned by the \<^verbatim>\<open>try\<close> body begins with \<^verbatim>\<open>User \<close>, and so with neither
  marker, and a caught \<^verbatim>\<open>RequestException\<close> gives a string beginning with
  \<^verbatim>\<open>ERROR:\<close>. So a failure shows as the prefix \<^verbatim>\<open>ERROR:\<close> in both tools.
\<close>

theorem tool_result_markers:
  "(fst (send_user_email env w recipient_email subject body) = Inr s \<longrightarrow>
        (s = success_message recipient_email subject \<and> prefix ''SUCCESS:'' s)
        \<or> prefix ''ERROR:'' s)
   \<and> (fst (get_user_status py_repr get user_id) = Inr s' \<longrightarrow>
        prefix ''ERROR:'' s' \<or> prefix ''User '' s')
   \<and> (get_user_status_try py_repr get user_id = Inr s' \<longrightarrow>
        fst (get_user_status py_repr get user_id) = Inr s'
        \<and> prefix ''User '' s' \<and> \<not> prefix ''ERROR:'' s' \<and> \<not> prefix ''SUCCESS:'' s')
   \<and> (get_user_status_try py_repr get user_id = Inl e \<and> exn_class e = RequestException \<longrightarrow>
        (\<exists>s. fst (get_user_status py_repr get user_id) = Inr s \<and> prefix ''ERROR:'' s))"
proof -
  have email: "(s = success_message recipient_email subject \<and> prefix ''SUCCESS:'' s)
        \<or> prefix ''ERROR:'' s"
    if "fst (send_user_email env w recipient_email subject body) = Inr s"
    using that by (rule send_user_email_marked)
  have success: "fst (get_user_status py_repr get user_id) = Inr s'
        \<and> prefix ''User '' s' \<and> \<not> prefix ''ERROR:'' s' \<and> \<not> prefix ''SUCCESS:'' s'"
    if "get_user_status_try py_repr get user_id = Inr s'"
    using get_user_status_returned [OF that] get_user_status_try_shape [OF that]
      user_not_error [of s'] user_not_success [of s']
    by simp
  have failure: "\<exists>s. fst (get_user_status py_repr get user_id) = Inr s \<and> prefix ''ERROR:'' s"
    if "get_user_status_try py_repr get user_id = Inl e" and "exn_class e = RequestException"
    using get_user_status_caught [OF that] status_error_marked [of "exn_str e"]
    by simp
  from email get_user_status_marked [of py_repr get user_id s'] success failure
  show ?thesis
    by blast
qed

theorem tool_result_markers_witness:
  "get_user_status_try sample_py_repr (mock_service_get 102) 102 = Inr ''User 102 Status: Inactive''
   \<and> fst (get_user_status sample_py_repr (mock_service_get 102) 102) =
       Inr ''User 102 Status: Inactive''
   \<and> prefix ''User '' ''User 102 Status: Inactive''
   \<and> get_user_status_try sample_py_repr refused_get 102 =
       Inl (Exn RequestException ''Connection refused'')
   \<and> (\<exists>s. fst (get_user_status sample_py_repr refused_get 102) = Inr s \<and> prefix ''ERROR:'' s)
   \<and> fst (send_user_email mailtrap_env bad_login_world ''bill@example.com'' ''Status Update''
            ''Your request has been processed.'') =
       Inr (smtp_error_prefix @ ''535 5.7.0 Invalid credentials'')
   \<and> prefix ''ERROR:'' (smtp_error_prefix @ ''535 5.7.0 Invalid credentials'')"
proof -
  have ran: "get_user_status_try sample_py_repr (mock_service_get 102) 102 =
      Inr ''User 102 Status: Inactive''"
    by (simp add: get_user_status_try_def mock_service_get_102 raise_for_status_def
        data_get_def digits_102)
  have failed: "get_user_status_try sample_py_repr refused_get 102 =
      Inl (Exn RequestException ''Connection refused'')"
    by (simp add: get_user_status_try_def refused_get_def)
  have built: "build_message bad_login_world ''bill@example.com'' ''Status Update''
        ''Your request has been processed.'' = Inr sample_message"
    by (rule sample_message_built) (rule sample_worlds_MIMEText)
  have rejected: "fst (send_user_email mailtrap_env bad_login_world ''bill@example.com''
        ''Status Update'' ''Your request has been processed.'') =
      Inr (smtp_error_prefix @ ''535 5.7.0 Invalid credentials'')"
    using built
    by (simp add: send_user_email_def send_try_def with_SMTP_def with_body_def mailtrap_env_def
        bad_login_world_def willing_world_def os_getenv_def py_not_def)
  have returned: "fst (get_user_status sample_py_repr (mock_service_get 102) 102) =
      Inr ''User 102 Status: Inactive'' \<and> prefix ''User '' ''User 102 Status: Inactive''"
    using tool_result_markers
      [where py_repr = sample_py_repr and get = "mock_service_get 102" and user_id = 102
         and s' = "''User 102 Status: Inactive''"] ran
    by blast
  have caught: "\<exists>s. fst (get_user_status sample_py_repr refused_get 102) = Inr s
      \<and> prefix ''ERROR:'' s"
    using tool_result_markers
      [where py_repr = sample_py_repr and get = refused_get and user_id = 102
         and e = "Exn RequestException ''Connection refused''"] failed
    by (metis exn.sel(1))
  have differ: "smtp_error_prefix @ ''535 5.7.0 Invalid credentials'' \<noteq>
      success_message ''bill@example.com'' ''Status Update''"
    by (simp add: smtp_error_prefix_def success_message_def)
  have marked: "prefix ''ERROR:'' (smtp_error_prefix @ ''535 5.7.0 Invalid credentials'')"
    using tool_result_markers
      [where env = mailtrap_env and w = bad_login_world
         and recipient_email = "''bill@example.com''" and subject = "''Status Update''"
         and body = "''Your request has been processed.''"
         and s = "smtp_error_prefix @ ''535 5.7.0 Invalid credentials''"] rejected differ
    by blast
  from ran failed returned caught rejected marked show ?thesis
    by blast
qed

text \<open>
  C4 as worded does not hold: the status tool's answer for user 101, served by the mock
  service, begins with neither \<^verbatim>\<open>ERROR:\<close> nor \<^verbatim>\<open>SUCCESS:\<close>.
\<close>

theorem status_success_has_no_marker:
  "fst (get_user_status sample_py_repr (mock_service_get 101) 101) =
     Inr ''User 101 Status: Active''
   \<and> \<not> prefix ''ERROR:'' ''User 101 Status: Active''
   \<and> \<not> prefix ''SUCCESS:'' ''User 101 Status: Active''"
  by (simp add: get_user_status_def get_user_status_try_def mock_service_get_101
      raise_for_status_def data_get_def digits_101)




end
